theory Spec2Isabelle
  imports Complex_Main "HOL-Library.AList"
begin

section \<open>Python values: text, exceptions, outcomes\<close>

text \<open>
  The two scripts \<^verbatim>\<open>scripts/debug/test-hap-pairing.py\<close> and
  \<^verbatim>\<open>scripts/debug/test-mdns.py\<close> are embedded function by function.
  Text is a list of 8-bit characters: what the scripts write to the error stream is its
  UTF-8 encoding, and the substring tests of the scripts use ASCII needles only.
  Everything a script gets from outside (sockets, HTTP requests, subprocesses, the
  platform name) is a field of the record \<open>env\<close>; every call into the outside either
  returns a value or raises an exception.
\<close>

fun startswith :: "string \<Rightarrow> string \<Rightarrow> bool" where
  "startswith [] s = True"
| "startswith (p # ps) [] = False"
| "startswith (p # ps) (c # cs) = (p = c \<and> startswith ps cs)"

text \<open>Python's \<^verbatim>\<open>needle in haystack\<close> on \<^verbatim>\<open>str\<close> and \<^verbatim>\<open>bytes\<close>.\<close>

fun contains :: "string \<Rightarrow> string \<Rightarrow> bool" where
  "contains p [] = (p = [])"
| "contains p (c # cs) = (startswith p (c # cs) \<or> contains p cs)"

text \<open>Python's \<^verbatim>\<open>str(n)\<close> on an integer, as the f-strings of the scripts use it.\<close>

fun digits :: "nat \<Rightarrow> string" where
  "digits n = (if n < 10 then [''0123456789'' ! n]
               else digits (n div 10) @ [''0123456789'' ! (n mod 10)])"

declare digits.simps [simp del]

definition str_int :: "int \<Rightarrow> string" where
  "str_int i = (if i < 0 then ''-'' @ digits (nat (- i)) else digits (nat i))"

text \<open>\<^verbatim>\<open>output.split('\n')\<close>.\<close>

fun split_lines :: "string \<Rightarrow> string list" where
  "split_lines [] = [[]]"
| "split_lines (c # cs) =
     (if c = CHR 0x0A then [] # split_lines cs
      else (case split_lines cs of
              l # ls \<Rightarrow> (c # l) # ls
            | [] \<Rightarrow> [[c]]))"

text \<open>
  The class \<^verbatim>\<open>\w\<close> on ASCII characters: letters, digits and the underscore.
\<close>

definition is_word_char :: "char \<Rightarrow> bool" where
  "is_word_char c =
     (let n = (of_char c :: nat)
      in (48 \<le> n \<and> n \<le> 57) \<or> (65 \<le> n \<and> n \<le> 90) \<or> (97 \<le> n \<and> n \<le> 122) \<or> n = 95)"

text \<open>
  What \<^verbatim>\<open>re.search(r'SmartThings Bridge \w+', line)\<close> finds in a line of ASCII
  characters: the leftmost place where the literal is followed by at least one word
  character, with the longest run of them; the result is \<^verbatim>\<open>match.group(0)\<close>.
  On other lines the class \<^verbatim>\<open>\w\<close> is Unicode's, which a list of bytes does not
  decide; the search itself is therefore the field \<open>re_search\<close> of \<open>env\<close> below, and
  this function is what the concrete hosts, whose output is ASCII, put there.
\<close>

fun re_search_bridge :: "string \<Rightarrow> string option" where
  "re_search_bridge [] = None"
| "re_search_bridge (c # cs) =
     (if startswith ''SmartThings Bridge '' (c # cs)
         \<and> takeWhile is_word_char (drop 19 (c # cs)) \<noteq> []
      then Some (''SmartThings Bridge '' @ takeWhile is_word_char (drop 19 (c # cs)))
      else re_search_bridge cs)"

text \<open>
  The exceptions the scripts meet. \<open>KeyboardInterrupt\<close> is the only one that is not an
  \<^verbatim>\<open>Exception\<close> (it derives from \<^verbatim>\<open>BaseException\<close>), so no
  \<^verbatim>\<open>except Exception\<close> clause catches it; a user interrupt arrives inside one
  of the calls into the outside (a socket call, a request, a subprocess, the start-up
  wait). An exception carries the text \<^verbatim>\<open>str(e)\<close> that the log messages print.
\<close>

datatype exn_class =
    KeyboardInterrupt
  | SocketTimeout
  | HTTPError int
  | URLError
  | TimeoutExpired
  | FileNotFoundError
  | UnboundLocalError
  | TypeError
  | ValueError
  | KeyError
  | OtherException

datatype exn = Exn exn_class string

datatype 'a outcome = Ret 'a | Raise exn

text \<open>
  How a process ends: \<^verbatim>\<open>sys.exit(code)\<close>, or an exception nobody caught. In
  the second case no \<^verbatim>\<open>sys.exit\<close> of the script is reached and the status is
  the interpreter's own (1, or 120 when it cannot flush the error stream either).
\<close>

datatype process_end = Exit int | Uncaught exn

text \<open>
  What a function does besides returning: a line of the pairing script's log (level and
  message; the time stamp in front of it is the wall clock's and is left out), a line
  printed by the mDNS script, a socket created or closed, a subprocess started with its
  argument vector, and the call of a probe by a driver.
\<close>

datatype event =
    Log string string
  | Print string
  | SocketOpened
  | SocketClosed
  | Spawned "string list"
  | Call string

text \<open>The values \<^verbatim>\<open>json.loads\<close> returns.\<close>

datatype json =
    JNull
  | JBool bool
  | JInt int
  | JFloat real
  | JString string
  | JArray "json list"
  | JObject "(string \<times> json) list"

text \<open>
  A subprocess: what \<^verbatim>\<open>subprocess.Popen(cmd, ...)\<close> does, and what
  \<^verbatim>\<open>communicate\<close> then yields (the captured standard output, or an exception
  such as \<^verbatim>\<open>TimeoutExpired\<close>). The \<^verbatim>\<open>time.sleep\<close> and
  \<^verbatim>\<open>proc.terminate()\<close> between the two leave no event.
\<close>

record proc =
  launch :: "unit outcome"
  communicate :: "string outcome"

record env =
  platform :: string
  socket_new :: "unit outcome"
  connect_ex :: "string \<Rightarrow> int \<Rightarrow> int outcome"
  sock_send :: "string \<Rightarrow> nat outcome"
  sock_recv :: "nat \<Rightarrow> string outcome"
  urlopen_status :: "string \<Rightarrow> int outcome"
  urlopen_json :: "string \<Rightarrow> json outcome"
  json_dumps :: "json \<Rightarrow> string"
  json_str :: "json \<Rightarrow> string"
  spawn :: "nat \<Rightarrow> string list \<Rightarrow> proc"
  re_search :: "string \<Rightarrow> string option"
  startup_sleep :: "unit outcome"
  stderr_write :: "unit outcome"

text \<open>
  \<open>socket_new\<close> is \<^verbatim>\<open>socket.socket(AF_INET, SOCK_STREAM)\<close>; \<open>connect_ex\<close> takes
  host and port and returns the error code; \<open>sock_recv\<close> takes the buffer size.
  \<open>urlopen_status url\<close> is \<^verbatim>\<open>urlopen(Request(url), timeout=TIMEOUT)\<close> followed
  by \<^verbatim>\<open>getcode()\<close>: urllib returns a response for a 2xx status and raises
  \<open>HTTPError code\<close> for the others. \<open>urlopen_json url\<close> is the request followed by
  \<^verbatim>\<open>json.loads(response.read().decode())\<close>. \<open>json_dumps\<close> and \<open>json_str\<close> are
  the library's renderings \<^verbatim>\<open>json.dumps(data, indent=2)\<close> and \<^verbatim>\<open>str(data)\<close>.
  \<open>spawn n cmd\<close> is the subprocess started with \<open>cmd\<close> after \<open>n\<close> earlier ones.
  \<open>re_search line\<close> is \<^verbatim>\<open>re.search(r'SmartThings Bridge \w+', line)\<close> with
  \<^verbatim>\<open>match.group(0)\<close> of a match.
  \<open>startup_sleep\<close> is the \<^verbatim>\<open>time.sleep(2)\<close> of the pairing script's main.
  \<open>stderr_write\<close> is the state of the error stream during the run: \<open>Ret ()\<close> when it
  accepts every line written to it, \<open>Raise e\<close> when writing to it raises \<open>e\<close> (a closed
  pipe, say). A stream that breaks in the middle of a run is not modelled. The probes
  and \<^verbatim>\<open>run_all_tests\<close> are modelled on a stream that accepts their lines, which
  is the only state in which \<^verbatim>\<open>main\<close> reaches them; the calls of
  \<^verbatim>\<open>log\<close> in \<^verbatim>\<open>main\<close> itself read \<open>stderr_write\<close>.
\<close>

definition run_proc :: "proc \<Rightarrow> string outcome" where
  "run_proc p = (case launch p of Raise e \<Rightarrow> Raise e | Ret u \<Rightarrow> communicate p)"

text \<open>
  The clause \<^verbatim>\<open>except Exception as e: <report e>; return False\<close> that closes
  every probe: \<open>report\<close> builds the reported line from \<^verbatim>\<open>str(e)\<close>.
\<close>

fun except_Exception ::
  "(string \<Rightarrow> event) \<Rightarrow> bool outcome \<times> event list \<Rightarrow> bool outcome \<times> event list" where
  "except_Exception report (Ret b, evs) = (Ret b, evs)"
| "except_Exception report (Raise (Exn c m), evs) =
     (if c = KeyboardInterrupt then (Raise (Exn c m), evs)
      else (Ret False, evs @ [report m]))"

section \<open>test-hap-pairing.py\<close>

definition HAP_PORT :: int where "HAP_PORT = 51826"
definition WEB_PORT :: int where "WEB_PORT = 3000"
definition TIMEOUT :: int where "TIMEOUT = 10"
definition MAX_RETRIES :: int where "MAX_RETRIES = 3"

definition quote :: string where "quote = [CHR 0x27]"
definition newline :: string where "newline = [CHR 0x0A]"
definition check_mark :: string where "check_mark = [CHR 0xE2, CHR 0x9C, CHR 0x85]"
definition cross_mark :: string where "cross_mark = [CHR 0xE2, CHR 0x9D, CHR 0x8C]"
definition warning_sign :: string where
  "warning_sign = [CHR 0xE2, CHR 0x9A, CHR 0xA0, CHR 0xEF, CHR 0xB8, CHR 0x8F]"

text \<open>
  The two URLs (lines 103 and 134) and the request of line 170.
\<close>

definition accessories_url :: string where
  "accessories_url = ''http://localhost:'' @ str_int HAP_PORT @ ''/accessories''"

definition pairing_url :: string where
  "pairing_url = ''http://localhost:'' @ str_int WEB_PORT @ ''/api/homekit/pairing''"

definition http_request :: string where
  "http_request =
     ''GET / HTTP/1.1'' @ [CHR 0x0D, CHR 0x0A] @ ''Host: localhost''
     @ [CHR 0x0D, CHR 0x0A, CHR 0x0D, CHR 0x0A]"

text \<open>
  \<^verbatim>\<open>sock.settimeout(timeout)\<close> on an integer: a negative value raises
  \<^verbatim>\<open>ValueError\<close>.
\<close>

definition settimeout :: "int \<Rightarrow> unit outcome" where
  "settimeout timeout =
     (if timeout < 0 then Raise (Exn ValueError ''Timeout value out of range'') else Ret ())"

text \<open>\<^verbatim>\<open>test_port_open(host, port, timeout)\<close>, lines 29-39.\<close>

definition test_port_open :: "env \<Rightarrow> string \<Rightarrow> int \<Rightarrow> int \<Rightarrow> bool outcome \<times> event list" where
  "test_port_open env host port timeout =
     except_Exception
       (\<lambda>m. Log ''ERROR'' (''Port test failed for '' @ host @ '':'' @ str_int port @ '' - '' @ m))
       (case socket_new env of
          Raise e \<Rightarrow> (Raise e, [])
        | Ret u \<Rightarrow>
            (case settimeout timeout of
               Raise e \<Rightarrow> (Raise e, [SocketOpened])
             | Ret u \<Rightarrow>
                 (case connect_ex env host port of
                    Raise e \<Rightarrow> (Raise e, [SocketOpened])
                  | Ret result \<Rightarrow> (Ret (result = 0), [SocketOpened, SocketClosed]))))"

text \<open>
  The loop of \<^verbatim>\<open>test_mdns_advertisement\<close>, lines 62-81, over the lines of the
  browse output; \<open>n\<close> counts the subprocesses started so far. It returns
  \<^verbatim>\<open>found_bridge\<close>.
\<close>

fun bridge_loop :: "env \<Rightarrow> nat \<Rightarrow> string list \<Rightarrow> bool outcome \<times> event list" where
  "bridge_loop env n [] = (Ret False, [])"
| "bridge_loop env n (line # rest) =
     (if contains ''SmartThings Bridge'' line then
        (case re_search env line of
           None \<Rightarrow> bridge_loop env n rest
         | Some bridge_name \<Rightarrow>
             (case run_proc (spawn env n [''dns-sd'', ''-L'', bridge_name, ''_hap._tcp'', ''local.'']) of
                Raise e \<Rightarrow>
                  (Raise e,
                   [Log ''INFO'' (''Found bridge instance: '' @ bridge_name),
                    Spawned [''dns-sd'', ''-L'', bridge_name, ''_hap._tcp'', ''local.'']])
              | Ret resolve_output \<Rightarrow>
                  (if contains ''can be reached at'' resolve_output \<and> contains ''51826'' resolve_output
                   then
                     (Ret True,
                      [Log ''INFO'' (''Found bridge instance: '' @ bridge_name),
                       Spawned [''dns-sd'', ''-L'', bridge_name, ''_hap._tcp'', ''local.''],
                       Log ''SUCCESS'' (''Bridge '' @ quote @ bridge_name @ quote
                                        @ '' properly advertised on port 51826'')])
                   else
                     (fst (bridge_loop env (Suc n) rest),
                      [Log ''INFO'' (''Found bridge instance: '' @ bridge_name),
                       Spawned [''dns-sd'', ''-L'', bridge_name, ''_hap._tcp'', ''local.'']]
                      @ snd (bridge_loop env (Suc n) rest)))))
      else bridge_loop env n rest)"

text \<open>
  The body of the \<^verbatim>\<open>try\<close> of \<^verbatim>\<open>test_mdns_advertisement\<close>, lines 44-90:
  its result, the binding of the local variable \<^verbatim>\<open>output\<close> when the body ends
  (\<open>None\<close> while it was never assigned), and the events.
\<close>

definition mdns_try_body :: "env \<Rightarrow> bool outcome \<times> string option \<times> event list" where
  "mdns_try_body env =
     (case run_proc (spawn env 0 [''dns-sd'', ''-B'', ''_hap._tcp'', ''local.'']) of
        Raise e \<Rightarrow>
          (Raise e, None,
           [Log ''INFO'' ''Testing mDNS advertisement...'',
            Spawned [''dns-sd'', ''-B'', ''_hap._tcp'', ''local.'']])
      | Ret output \<Rightarrow>
          (if contains ''_hap._tcp'' output then
             (case bridge_loop env 1 (split_lines output) of
                (Raise e, evs) \<Rightarrow>
                  (Raise e, Some output,
                   [Log ''INFO'' ''Testing mDNS advertisement...'',
                    Spawned [''dns-sd'', ''-B'', ''_hap._tcp'', ''local.''],
                    Log ''SUCCESS'' ''mDNS advertisement found!''] @ evs)
              | (Ret found_bridge, evs) \<Rightarrow>
                  (if found_bridge then
                     (Ret True, Some output,
                      [Log ''INFO'' ''Testing mDNS advertisement...'',
                       Spawned [''dns-sd'', ''-B'', ''_hap._tcp'', ''local.''],
                       Log ''SUCCESS'' ''mDNS advertisement found!''] @ evs)
                   else
                     (Ret False, Some output,
                      [Log ''INFO'' ''Testing mDNS advertisement...'',
                       Spawned [''dns-sd'', ''-B'', ''_hap._tcp'', ''local.''],
                       Log ''SUCCESS'' ''mDNS advertisement found!''] @ evs
                      @ [Log ''WARN'' ''No SmartThings Bridge properly advertised''])))
           else
             (Ret False, Some output,
              [Log ''INFO'' ''Testing mDNS advertisement...'',
               Spawned [''dns-sd'', ''-B'', ''_hap._tcp'', ''local.''],
               Log ''ERROR'' ''No HAP services found via mDNS''])))"

text \<open>
  Reading a local variable that was never assigned raises \<^verbatim>\<open>UnboundLocalError\<close>.
\<close>

definition unbound_local :: "string \<Rightarrow> exn" where
  "unbound_local name =
     Exn UnboundLocalError
       (''cannot access local variable '' @ quote @ name @ quote
        @ '' where it is not associated with a value'')"

text \<open>
  \<^verbatim>\<open>test_mdns_advertisement()\<close>, lines 41-97. The clause for
  \<^verbatim>\<open>TimeoutExpired\<close> reads \<^verbatim>\<open>output\<close>; an exception raised inside an
  \<^verbatim>\<open>except\<close> clause is not caught by the clauses beside it.
\<close>

definition test_mdns_advertisement :: "env \<Rightarrow> bool outcome \<times> event list" where
  "test_mdns_advertisement env =
     (case mdns_try_body env of
        (Ret b, output, evs) \<Rightarrow> (Ret b, evs)
      | (Raise (Exn c m), output, evs) \<Rightarrow>
          (if c = TimeoutExpired then
             (case output of
                None \<Rightarrow> (Raise (unbound_local ''output''), evs)
              | Some out \<Rightarrow> (Ret (contains ''_hap._tcp'' out), evs))
           else except_Exception (\<lambda>m. Log ''ERROR'' (''mDNS test failed: '' @ m))
                  (Raise (Exn c m), evs)))"

text \<open>\<^verbatim>\<open>test_hap_discovery_endpoint()\<close>, lines 99-129.\<close>

definition test_hap_discovery_endpoint :: "env \<Rightarrow> bool outcome \<times> event list" where
  "test_hap_discovery_endpoint env =
     except_Exception (\<lambda>m. Log ''ERROR'' (''HAP discovery test failed: '' @ m))
       (case urlopen_status env accessories_url of
          Ret status \<Rightarrow>
            (Ret False,
             [Log ''WARN'' (''Unexpected success on /accessories: '' @ str_int status)])
        | Raise (Exn c m) \<Rightarrow>
            (case c of
               HTTPError code \<Rightarrow>
                 (if code = 401 \<or> code = 470
                  then (Ret True,
                        [Log ''SUCCESS'' (''HAP server properly requires pairing (code ''
                                          @ str_int code @ '')'')])
                  else (Ret False,
                        [Log ''ERROR'' (''Unexpected HTTP error: '' @ str_int code)]))
             | URLError \<Rightarrow>
                 (Ret False, [Log ''ERROR'' (''Cannot connect to HAP server: '' @ m)])
             | _ \<Rightarrow> (Raise (Exn c m), [])))"

text \<open>
  Python's \<^verbatim>\<open>key in data\<close> on a decoded JSON value: key membership on a dict,
  element membership on a list, substring on a string, and \<^verbatim>\<open>TypeError\<close> on
  the values that are no containers.
\<close>

definition not_iterable :: "string \<Rightarrow> exn" where
  "not_iterable ty =
     Exn TypeError (''argument of type '' @ quote @ ty @ quote @ '' is not iterable'')"

fun py_in :: "string \<Rightarrow> json \<Rightarrow> bool outcome" where
  "py_in k (JObject kvs) = Ret (k \<in> set (map fst kvs))"
| "py_in k (JArray xs) = Ret (JString k \<in> set xs)"
| "py_in k (JString s) = Ret (contains k s)"
| "py_in k JNull = Raise (not_iterable ''NoneType'')"
| "py_in k (JBool b) = Raise (not_iterable ''bool'')"
| "py_in k (JInt i) = Raise (not_iterable ''int'')"
| "py_in k (JFloat x) = Raise (not_iterable ''float'')"

text \<open>
  The condition of line 142, with the short-circuit order of \<^verbatim>\<open>and\<close> and
  \<^verbatim>\<open>or\<close>.
\<close>

definition expected_fields :: "json \<Rightarrow> bool outcome" where
  "expected_fields data =
     (case py_in ''qrCode'' data of
        Raise e \<Rightarrow> Raise e
      | Ret q \<Rightarrow>
          (if q then
             (case py_in ''pairingCode'' data of
                Raise e \<Rightarrow> Raise e
              | Ret p \<Rightarrow>
                  (if p then Ret True
                   else
                     (case py_in ''setupCode'' data of
                        Raise e \<Rightarrow> Raise e
                      | Ret s \<Rightarrow> (if s then Ret True else py_in ''pinCode'' data))))
           else Ret False))"

text \<open>\<^verbatim>\<open>test_web_api()\<close>, lines 131-152.\<close>

definition test_web_api :: "env \<Rightarrow> bool outcome \<times> event list" where
  "test_web_api env =
     except_Exception (\<lambda>m. Log ''ERROR'' (''Web API test failed: '' @ m))
       (case urlopen_json env pairing_url of
          Raise e \<Rightarrow> (Raise e, [])
        | Ret data \<Rightarrow>
            (case expected_fields data of
               Raise e \<Rightarrow> (Raise e, [])
             | Ret ok \<Rightarrow>
                 (if ok then
                    (Ret True,
                     [Log ''SUCCESS'' ''Web API pairing endpoint working'',
                      Log ''DEBUG'' (''Pairing info: '' @ json_dumps env data)])
                  else
                    (Ret False,
                     [Log ''ERROR'' (''Web API returned unexpected data: '' @ json_str env data)]))))"

text \<open>
  The inner \<^verbatim>\<open>try ... except socket.timeout ... finally sock.close()\<close> of
  \<^verbatim>\<open>test_hap_tcp_connection\<close>, lines 169-189.
\<close>

definition tcp_exchange :: "env \<Rightarrow> bool outcome \<times> event list" where
  "tcp_exchange env =
     (case
        (case sock_send env http_request of
           Raise e \<Rightarrow> (Raise e, [])
         | Ret sent \<Rightarrow>
             (case sock_recv env 1024 of
                Raise e \<Rightarrow> (Raise e, [])
              | Ret response \<Rightarrow>
                  (if response \<noteq> [] then
                     (if contains ''HTTP'' response
                      then (Ret True,
                            [Log ''SUCCESS'' (''HAP server responded with ''
                                              @ str_int (int (length response)) @ '' bytes''),
                             Log ''SUCCESS'' ''HAP server speaks HTTP''])
                      else (Ret False,
                            [Log ''SUCCESS'' (''HAP server responded with ''
                                              @ str_int (int (length response)) @ '' bytes''),
                             Log ''ERROR'' ''HAP server response is not HTTP'']))
                   else (Ret False, [Log ''ERROR'' ''HAP server did not respond''])))) of
        (Ret b, evs) \<Rightarrow> (Ret b, evs @ [SocketClosed])
      | (Raise (Exn c m), evs) \<Rightarrow>
          (if c = SocketTimeout
           then (Ret False, evs @ [Log ''ERROR'' ''HAP server connection timed out'', SocketClosed])
           else (Raise (Exn c m), evs @ [SocketClosed])))"

text \<open>
  \<^verbatim>\<open>test_hap_tcp_connection()\<close>, lines 154-196. \<^verbatim>\<open>sock.settimeout(TIMEOUT)\<close>
  returns, \<open>TIMEOUT\<close> being 10, and has no effect of its own here: a timed out
  connection attempt is an error code of \<open>connect_ex\<close>, a timed out read the exception
  \<open>SocketTimeout\<close>.
\<close>

definition test_hap_tcp_connection :: "env \<Rightarrow> bool outcome \<times> event list" where
  "test_hap_tcp_connection env =
     except_Exception (\<lambda>m. Log ''ERROR'' (''TCP connection test failed: '' @ m))
       (case socket_new env of
          Raise e \<Rightarrow>
            (Raise e,
             [Log ''INFO'' (''Testing TCP connection to HAP port '' @ str_int HAP_PORT @ ''...'')])
        | Ret u \<Rightarrow>
            (case connect_ex env ''localhost'' HAP_PORT of
               Raise e \<Rightarrow>
                 (Raise e,
                  [Log ''INFO'' (''Testing TCP connection to HAP port '' @ str_int HAP_PORT @ ''...''),
                   SocketOpened])
             | Ret result \<Rightarrow>
                 (if result = 0 then
                    (fst (tcp_exchange env),
                     [Log ''INFO'' (''Testing TCP connection to HAP port '' @ str_int HAP_PORT @ ''...''),
                      SocketOpened,
                      Log ''SUCCESS'' ''TCP connection to HAP port successful'']
                     @ snd (tcp_exchange env))
                  else
                    (Ret False,
                     [Log ''INFO'' (''Testing TCP connection to HAP port '' @ str_int HAP_PORT @ ''...''),
                      SocketOpened,
                      Log ''ERROR'' (''Cannot connect to HAP port: error code '' @ str_int result)]))))"

text \<open>
  One line of the summary table, lines 230-232.
\<close>

definition summary_line :: "string \<times> bool \<Rightarrow> event" where
  "summary_line r =
     (if snd r then Log ''INFO'' (''  '' @ fst r @ '': '' @ check_mark @ '' PASS'')
      else Log ''ERROR'' (''  '' @ fst r @ '': '' @ cross_mark @ '' FAIL''))"

text \<open>\<^verbatim>\<open>results[key]\<close>: a missing key raises \<^verbatim>\<open>KeyError\<close>.\<close>

definition dict_get :: "(string \<times> bool) list \<Rightarrow> string \<Rightarrow> bool outcome" where
  "dict_get d k =
     (case map_of d k of
        None \<Rightarrow> Raise (Exn KeyError (quote @ k @ quote))
      | Some v \<Rightarrow> Ret v)"

text \<open>
  The verdict of \<^verbatim>\<open>run_all_tests\<close>, lines 227-249, on the dictionary of results:
  the summary table, then \<^verbatim>\<open>all_passed\<close>, \<^verbatim>\<open>critical_passed\<close> and the
  three-way branch. \<^verbatim>\<open>and\<close> reads the second key only when the first value is
  true.
\<close>

definition verdict :: "(string \<times> bool) list \<Rightarrow> bool outcome \<times> event list" where
  "verdict results =
     (case
        (case dict_get results ''TCP Connection'' of
           Raise e \<Rightarrow> Raise e
         | Ret tcp \<Rightarrow> (if tcp then dict_get results ''mDNS Advertisement'' else Ret False)) of
        Raise e \<Rightarrow>
          (Raise e,
           [Log ''INFO'' (newline @ replicate 50 CHR ''=''), Log ''INFO'' ''Test Results:'']
           @ map summary_line results)
      | Ret critical_passed \<Rightarrow>
          (if list_all (\<lambda>passed. passed) (map snd results) then
             (Ret True,
              [Log ''INFO'' (newline @ replicate 50 CHR ''=''), Log ''INFO'' ''Test Results:'']
              @ map summary_line results
              @ [Log ''INFO'' (replicate 50 CHR ''=''),
                 Log ''SUCCESS'' (check_mark @ '' All tests passed - HAP server should be pairable'')])
           else if critical_passed then
             (Ret True,
              [Log ''INFO'' (newline @ replicate 50 CHR ''=''), Log ''INFO'' ''Test Results:'']
              @ map summary_line results
              @ [Log ''INFO'' (replicate 50 CHR ''=''),
                 Log ''WARN'' (warning_sign @ ''  Critical tests passed but some issues detected'')])
           else
             (Ret False,
              [Log ''INFO'' (newline @ replicate 50 CHR ''=''), Log ''INFO'' ''Test Results:'']
              @ map summary_line results
              @ [Log ''INFO'' (replicate 50 CHR ''=''),
                 Log ''ERROR'' (cross_mark @ '' Critical tests failed - HAP server is NOT pairable'')])))"

text \<open>
  One numbered step of \<^verbatim>\<open>run_all_tests\<close>: the title line, then the call of the
  probe (recorded as \<open>Call\<close> with the probe's name), then what the probe does.
\<close>

definition run_probe ::
  "string \<Rightarrow> string \<Rightarrow> (env \<Rightarrow> bool outcome \<times> event list) \<Rightarrow> env \<Rightarrow> bool outcome \<times> event list" where
  "run_probe title name probe env =
     (fst (probe env), [Log ''INFO'' (newline @ title), Call name] @ snd (probe env))"

text \<open>
  \<^verbatim>\<open>run_all_tests()\<close>, lines 198-249. Nothing is caught here: a probe that raises
  ends the function at once.
\<close>

definition run_all_tests :: "env \<Rightarrow> bool outcome \<times> event list" where
  "run_all_tests env =
     (case run_probe ''Test 1: TCP Connection to HAP Port'' ''test_hap_tcp_connection''
             test_hap_tcp_connection env of
        (Raise e, evs1) \<Rightarrow>
          (Raise e,
           [Log ''INFO'' (replicate 50 CHR ''=''), Log ''INFO'' ''Starting HAP Pairing Tests'',
            Log ''INFO'' (replicate 50 CHR ''='')] @ evs1)
      | (Ret tcp, evs1) \<Rightarrow>
     (case run_probe ''Test 2: HAP Discovery Endpoint'' ''test_hap_discovery_endpoint''
             test_hap_discovery_endpoint env of
        (Raise e, evs2) \<Rightarrow>
          (Raise e,
           [Log ''INFO'' (replicate 50 CHR ''=''), Log ''INFO'' ''Starting HAP Pairing Tests'',
            Log ''INFO'' (replicate 50 CHR ''='')] @ evs1 @ evs2)
      | (Ret hap, evs2) \<Rightarrow>
     (case run_probe ''Test 3: Web API Pairing Endpoint'' ''test_web_api'' test_web_api env of
        (Raise e, evs3) \<Rightarrow>
          (Raise e,
           [Log ''INFO'' (replicate 50 CHR ''=''), Log ''INFO'' ''Starting HAP Pairing Tests'',
            Log ''INFO'' (replicate 50 CHR ''='')] @ evs1 @ evs2 @ evs3)
      | (Ret web, evs3) \<Rightarrow>
     (case run_probe ''Test 4: mDNS Advertisement'' ''test_mdns_advertisement''
             test_mdns_advertisement env of
        (Raise e, evs4) \<Rightarrow>
          (Raise e,
           [Log ''INFO'' (replicate 50 CHR ''=''), Log ''INFO'' ''Starting HAP Pairing Tests'',
            Log ''INFO'' (replicate 50 CHR ''='')] @ evs1 @ evs2 @ evs3 @ evs4)
      | (Ret mdns, evs4) \<Rightarrow>
          (fst (verdict
                 (AList.update ''mDNS Advertisement'' mdns
                   (AList.update ''Web API'' web
                     (AList.update ''HAP Discovery'' hap
                       (AList.update ''TCP Connection'' tcp
                         [(''TCP Connection'', False), (''HAP Discovery'', False),
                          (''Web API'', False), (''mDNS Advertisement'', False)]))))),
           [Log ''INFO'' (replicate 50 CHR ''=''), Log ''INFO'' ''Starting HAP Pairing Tests'',
            Log ''INFO'' (replicate 50 CHR ''='')] @ evs1 @ evs2 @ evs3 @ evs4
           @ snd (verdict
                   (AList.update ''mDNS Advertisement'' mdns
                     (AList.update ''Web API'' web
                       (AList.update ''HAP Discovery'' hap
                         (AList.update ''TCP Connection'' tcp
                           [(''TCP Connection'', False), (''HAP Discovery'', False),
                            (''Web API'', False), (''mDNS Advertisement'', False)]))))))))))"

text \<open>
  \<^verbatim>\<open>log(message, level)\<close>, lines 24-27, as \<^verbatim>\<open>main\<close> calls it: the line is
  written to the error stream, or the write raises.
\<close>

definition log :: "env \<Rightarrow> string \<Rightarrow> string \<Rightarrow> unit outcome \<times> event list" where
  "log env message level =
     (case stderr_write env of
        Raise e \<Rightarrow> (Raise e, [])
      | Ret u \<Rightarrow> (Ret (), [Log level message]))"

text \<open>
  The two \<^verbatim>\<open>except\<close> clauses of \<^verbatim>\<open>main\<close>, lines 264-269. Each logs its
  line and then calls \<^verbatim>\<open>sys.exit\<close>; when the call of \<^verbatim>\<open>log\<close> raises,
  \<^verbatim>\<open>sys.exit\<close> is not reached and the new exception leaves \<^verbatim>\<open>main\<close>.
\<close>

fun main_except :: "env \<Rightarrow> exn \<Rightarrow> process_end \<times> event list" where
  "main_except env (Exn c m) =
     (if c = KeyboardInterrupt then
        (case log env (newline @ ''Tests interrupted by user'') ''WARN'' of
           (Raise e, evs) \<Rightarrow> (Uncaught e, evs)
         | (Ret u, evs) \<Rightarrow> (Exit 130, evs))
      else
        (case log env (''Unexpected error: '' @ m) ''ERROR'' of
           (Raise e, evs) \<Rightarrow> (Uncaught e, evs)
         | (Ret u, evs) \<Rightarrow> (Exit 1, evs)))"

text \<open>
  \<^verbatim>\<open>main()\<close> of test-hap-pairing.py, lines 251-269: how the process ends, and
  the events. \<^verbatim>\<open>sys.exit\<close> raises \<^verbatim>\<open>SystemExit\<close>, which neither clause
  catches. The first call of \<^verbatim>\<open>log\<close>, line 255, stands inside the
  \<^verbatim>\<open>try\<close>.
\<close>

definition main_hap_pairing :: "env \<Rightarrow> process_end \<times> event list" where
  "main_hap_pairing env =
     (case log env ''Waiting for server to stabilize...'' ''INFO'' of
        (Raise e, evs0) \<Rightarrow> (fst (main_except env e), evs0 @ snd (main_except env e))
      | (Ret u, evs0) \<Rightarrow>
          (case startup_sleep env of
             Raise e \<Rightarrow> (fst (main_except env e), evs0 @ snd (main_except env e))
           | Ret u \<Rightarrow>
               (case run_all_tests env of
                  (Raise e, evs) \<Rightarrow>
                    (fst (main_except env e), evs0 @ evs @ snd (main_except env e))
                | (Ret success, evs) \<Rightarrow>
                    (Exit (if success then 0 else 1), evs0 @ evs))))"

section \<open>test-mdns.py\<close>

text \<open>
  \<^verbatim>\<open>test_mdns_with_avahi()\<close>, lines 14-27. \<^verbatim>\<open>subprocess.run\<close> starts the
  process and waits for it; only \<^verbatim>\<open>TimeoutExpired\<close> and
  \<^verbatim>\<open>FileNotFoundError\<close> are caught.
\<close>

definition test_mdns_with_avahi :: "env \<Rightarrow> bool outcome \<times> event list" where
  "test_mdns_with_avahi env =
     (case run_proc (spawn env 0 [''avahi-browse'', ''-ptr'', ''_hap._tcp'']) of
        Ret stdout \<Rightarrow>
          (Ret (contains ''SmartThings'' stdout), [Spawned [''avahi-browse'', ''-ptr'', ''_hap._tcp'']])
      | Raise (Exn c m) \<Rightarrow>
          (if c = TimeoutExpired \<or> c = FileNotFoundError
           then (Ret False, [Spawned [''avahi-browse'', ''-ptr'', ''_hap._tcp'']])
           else (Raise (Exn c m), [Spawned [''avahi-browse'', ''-ptr'', ''_hap._tcp'']])))"

text \<open>
  The body of the \<^verbatim>\<open>try\<close> of \<^verbatim>\<open>test_mdns_with_dns_sd\<close>, lines 32-80: its
  result (\<open>Ret (Some b)\<close> for \<^verbatim>\<open>return b\<close>, \<open>Ret None\<close> when it runs to its end),
  the binding of \<^verbatim>\<open>output\<close> when it ends, and the events.
\<close>

definition dns_sd_try_body :: "env \<Rightarrow> bool option outcome \<times> string option \<times> event list" where
  "dns_sd_try_body env =
     (case run_proc (spawn env 0 [''dns-sd'', ''-B'', ''_hap._tcp'', ''local.'']) of
        Raise e \<Rightarrow> (Raise e, None, [Spawned [''dns-sd'', ''-B'', ''_hap._tcp'', ''local.'']])
      | Ret out1 \<Rightarrow>
          (if contains ''_hap._tcp'' out1 then
             (case run_proc (spawn env 1 [''dns-sd'', ''-L'', ''SmartThings Bridge'', ''_hap._tcp'', ''local.'']) of
                Raise e \<Rightarrow>
                  (Raise e, Some out1,
                   [Spawned [''dns-sd'', ''-B'', ''_hap._tcp'', ''local.''],
                    Print ''[INFO] Found HAP services via mDNS'',
                    Spawned [''dns-sd'', ''-L'', ''SmartThings Bridge'', ''_hap._tcp'', ''local.'']])
              | Ret out2 \<Rightarrow>
                  (if contains ''can be reached at'' out2
                      \<and> (contains '':51826'' out2 \<or> contains ''51826.local'' out2)
                   then
                     (Ret (Some True), Some out2,
                      [Spawned [''dns-sd'', ''-B'', ''_hap._tcp'', ''local.''],
                       Print ''[INFO] Found HAP services via mDNS'',
                       Spawned [''dns-sd'', ''-L'', ''SmartThings Bridge'', ''_hap._tcp'', ''local.''],
                       Print ''[SUCCESS] Bridge service properly advertised on port 51826''])
                   else
                     (case run_proc (spawn env 2 [''dns-sd'', ''-q'', ''SmartThings HomeKit Bridge._hap._tcp.local'', ''SRV'']) of
                        Raise e \<Rightarrow>
                          (Raise e, Some out2,
                           [Spawned [''dns-sd'', ''-B'', ''_hap._tcp'', ''local.''],
                            Print ''[INFO] Found HAP services via mDNS'',
                            Spawned [''dns-sd'', ''-L'', ''SmartThings Bridge'', ''_hap._tcp'', ''local.''],
                            Spawned [''dns-sd'', ''-q'', ''SmartThings HomeKit Bridge._hap._tcp.local'', ''SRV'']])
                      | Ret out3 \<Rightarrow>
                          (if contains ''51826'' out3 then
                             (Ret (Some True), Some out3,
                              [Spawned [''dns-sd'', ''-B'', ''_hap._tcp'', ''local.''],
                               Print ''[INFO] Found HAP services via mDNS'',
                               Spawned [''dns-sd'', ''-L'', ''SmartThings Bridge'', ''_hap._tcp'', ''local.''],
                               Spawned [''dns-sd'', ''-q'', ''SmartThings HomeKit Bridge._hap._tcp.local'', ''SRV''],
                               Print ''[SUCCESS] Bridge SRV record found''])
                           else
                             (Ret None, Some out3,
                              [Spawned [''dns-sd'', ''-B'', ''_hap._tcp'', ''local.''],
                               Print ''[INFO] Found HAP services via mDNS'',
                               Spawned [''dns-sd'', ''-L'', ''SmartThings Bridge'', ''_hap._tcp'', ''local.''],
                               Spawned [''dns-sd'', ''-q'', ''SmartThings HomeKit Bridge._hap._tcp.local'', ''SRV'']])))))
           else
             (Ret (Some False), Some out1,
              [Spawned [''dns-sd'', ''-B'', ''_hap._tcp'', ''local.''],
               Print ''[FAIL] No HAP services found via mDNS''])))"

text \<open>
  \<^verbatim>\<open>test_mdns_with_dns_sd()\<close>, lines 29-90. The clause for
  \<^verbatim>\<open>TimeoutExpired\<close> reads \<^verbatim>\<open>output\<close>; after either clause the function
  goes on to \<^verbatim>\<open>return False\<close>.
\<close>

definition test_mdns_with_dns_sd :: "env \<Rightarrow> bool outcome \<times> event list" where
  "test_mdns_with_dns_sd env =
     (case dns_sd_try_body env of
        (Ret (Some b), output, evs) \<Rightarrow> (Ret b, evs)
      | (Ret None, output, evs) \<Rightarrow> (Ret False, evs)
      | (Raise (Exn c m), output, evs) \<Rightarrow>
          (if c = TimeoutExpired then
             (case output of
                None \<Rightarrow> (Raise (unbound_local ''output''), evs)
              | Some out \<Rightarrow>
                  (if out \<noteq> [] \<and> (contains ''SmartThings'' out \<or> contains ''51826'' out)
                   then (Ret True, evs @ [Print ''[SUCCESS] Bridge partially resolved''])
                   else (Ret False, evs)))
           else except_Exception (\<lambda>m. Print (''[ERROR] dns-sd test failed: '' @ m))
                  (Raise (Exn c m), evs)))"

text \<open>\<^verbatim>\<open>test_direct_port()\<close>, lines 92-107.\<close>

definition test_direct_port :: "env \<Rightarrow> bool outcome \<times> event list" where
  "test_direct_port env =
     except_Exception (\<lambda>m. Print (''[ERROR] Port test failed: '' @ m))
       (case socket_new env of
          Raise e \<Rightarrow> (Raise e, [])
        | Ret u \<Rightarrow>
            (case connect_ex env ''localhost'' 51826 of
               Raise e \<Rightarrow> (Raise e, [SocketOpened])
             | Ret result \<Rightarrow>
                 (if result = 0
                  then (Ret True,
                        [SocketOpened, SocketClosed, Print ''[INFO] HAP port 51826 is listening''])
                  else (Ret False,
                        [SocketOpened, SocketClosed,
                         Print ''[FAIL] HAP port 51826 is not accessible'']))))"

text \<open>
  The platform branch of \<^verbatim>\<open>main\<close> of test-mdns.py, lines 118-121, with the call
  recorded.
\<close>

definition mdns_strategy :: "env \<Rightarrow> bool outcome \<times> event list" where
  "mdns_strategy env =
     (if platform env = ''darwin''
      then (fst (test_mdns_with_dns_sd env),
            [Call ''test_mdns_with_dns_sd''] @ snd (test_mdns_with_dns_sd env))
      else (fst (test_mdns_with_avahi env),
            [Call ''test_mdns_with_avahi''] @ snd (test_mdns_with_avahi env)))"

text \<open>\<^verbatim>\<open>main()\<close> of test-mdns.py, lines 109-128; it has no \<^verbatim>\<open>try\<close>.\<close>

definition main_mdns :: "env \<Rightarrow> process_end \<times> event list" where
  "main_mdns env =
     (case test_direct_port env of
        (Raise e, evs) \<Rightarrow>
          (Uncaught e,
           [Print ''[INFO] Testing mDNS advertisement for HAP server...''] @ evs)
      | (Ret port_ok, evs) \<Rightarrow>
          (if port_ok then
             (case mdns_strategy env of
                (Raise e, evs') \<Rightarrow>
                  (Uncaught e,
                   [Print ''[INFO] Testing mDNS advertisement for HAP server...''] @ evs @ evs')
              | (Ret success, evs') \<Rightarrow>
                  (if success then
                     (Exit 0,
                      [Print ''[INFO] Testing mDNS advertisement for HAP server...''] @ evs @ evs'
                      @ [Print (''[SUCCESS] '' @ check_mark
                                @ '' HAP server is properly advertised via mDNS'')])
                   else
                     (Exit 1,
                      [Print ''[INFO] Testing mDNS advertisement for HAP server...''] @ evs @ evs'
                      @ [Print (''[FAIL] '' @ cross_mark
                                @ '' HAP server is NOT properly advertised via mDNS'')])))
           else
             (Exit 1,
              [Print ''[INFO] Testing mDNS advertisement for HAP server...''] @ evs
              @ [Print ''[FAIL] HAP server is not running on port 51826''])))"

section \<open>Reading a run\<close>

text \<open>The probes called, in order; the commands started, in order.\<close>

fun calls :: "event list \<Rightarrow> string list" where
  "calls [] = []"
| "calls (Call name # evs) = name # calls evs"
| "calls (ev # evs) = calls evs"

fun spawned :: "event list \<Rightarrow> string list list" where
  "spawned [] = []"
| "spawned (Spawned cmd # evs) = cmd # spawned evs"
| "spawned (ev # evs) = spawned evs"

text \<open>
  The number of sockets open after a run of events that starts with \<open>n\<close> open ones.
\<close>

fun sockets_open :: "nat \<Rightarrow> event list \<Rightarrow> nat" where
  "sockets_open n [] = n"
| "sockets_open n (SocketOpened # evs) = sockets_open (Suc n) evs"
| "sockets_open n (SocketClosed # evs) = sockets_open (n - 1) evs"
| "sockets_open n (ev # evs) = sockets_open n evs"

section \<open>Concrete hosts\<close>

text \<open>
  A macOS host on which the bridge runs as intended, with a writable error stream: the
  HAP port answers in HTTP, the protected endpoint asks for pairing with status 470,
  the web API returns both codes,
  and dns-sd sees the bridge and resolves it to port 51826; any other dns-sd query finds
  nothing, and there is no other discovery tool.
\<close>

definition mac_spawn :: "nat \<Rightarrow> string list \<Rightarrow> proc" where
  "mac_spawn n cmd =
     (if cmd = [''dns-sd'', ''-B'', ''_hap._tcp'', ''local.'']
      then \<lparr>launch = Ret (),
            communicate = Ret (''Add 3 4 local. _hap._tcp. SmartThings Bridge 1A2B'' @ [CHR 0x0A])\<rparr>
      else if cmd = [''dns-sd'', ''-L'', ''SmartThings Bridge 1A2B'', ''_hap._tcp'', ''local.'']
      then \<lparr>launch = Ret (),
            communicate = Ret ''SmartThings Bridge 1A2B can be reached at host.local.:51826''\<rparr>
      else if take 1 cmd = [''dns-sd'']
      then \<lparr>launch = Ret (), communicate = Ret ''DATE: ---''\<rparr>
      else \<lparr>launch = Raise (Exn FileNotFoundError ''[Errno 2] No such file or directory''),
            communicate = Ret []\<rparr>)"

definition healthy_mac :: env where
  "healthy_mac =
     \<lparr>platform = ''darwin'',
      socket_new = Ret (),
      connect_ex = (\<lambda>host port. Ret 0),
      sock_send = (\<lambda>data. Ret (length data)),
      sock_recv = (\<lambda>bufsize. Ret ''HTTP/1.1 470 Connection Authorization Required''),
      urlopen_status = (\<lambda>url. Raise (Exn (HTTPError 470) ''HTTP Error 470: '')),
      urlopen_json = (\<lambda>url. Ret (JObject [(''qrCode'', JString ''X''),
                                           (''pairingCode'', JString ''123-45-678'')])),
      json_dumps = (\<lambda>data. ''{...}''),
      json_str = (\<lambda>data. ''{...}''),
      spawn = mac_spawn,
      re_search = re_search_bridge,
      startup_sleep = Ret (),
      stderr_write = Ret ()\<rparr>"

text \<open>The same host with nothing listening on the HAP port (error code 111).\<close>

definition closed_port :: env where
  "closed_port = healthy_mac\<lparr>connect_ex := (\<lambda>host port. Ret 111)\<rparr>"

text \<open>The same host with a server that accepts the connection and never answers.\<close>

definition silent_server :: env where
  "silent_server = healthy_mac\<lparr>sock_recv := (\<lambda>bufsize. Raise (Exn SocketTimeout ''timed out''))\<rparr>"

text \<open>A server that closes the connection without a byte, and one that answers in another protocol.\<close>

definition empty_reply :: env where
  "empty_reply = healthy_mac\<lparr>sock_recv := (\<lambda>bufsize. Ret [])\<rparr>"

definition ssh_server :: env where
  "ssh_server = healthy_mac\<lparr>sock_recv := (\<lambda>bufsize. Ret ''SSH-2.0-OpenSSH_9.6'')\<rparr>"

text \<open>The protected endpoint answering 200, 404, and not answering at all.\<close>

definition leaking_endpoint :: env where
  "leaking_endpoint = healthy_mac\<lparr>urlopen_status := (\<lambda>url. Ret 200)\<rparr>"

definition missing_endpoint :: env where
  "missing_endpoint =
     healthy_mac\<lparr>urlopen_status := (\<lambda>url. Raise (Exn (HTTPError 404) ''HTTP Error 404: Not Found''))\<rparr>"

definition refused_endpoint :: env where
  "refused_endpoint =
     healthy_mac\<lparr>urlopen_status :=
       (\<lambda>url. Raise (Exn URLError ''<urlopen error [Errno 111] Connection refused>''))\<rparr>"

definition reset_endpoint :: env where
  "reset_endpoint =
     healthy_mac\<lparr>urlopen_status :=
       (\<lambda>url. Raise (Exn OtherException ''[Errno 104] Connection reset by peer''))\<rparr>"

text \<open>The web API down: the secondary probes fail, the critical ones pass.\<close>

definition web_api_down :: env where
  "web_api_down =
     healthy_mac\<lparr>urlopen_json :=
       (\<lambda>url. Raise (Exn URLError ''<urlopen error [Errno 111] Connection refused>''))\<rparr>"

text \<open>The web API answering with a JSON string instead of an object.\<close>

definition string_payload :: env where
  "string_payload = healthy_mac\<lparr>urlopen_json := (\<lambda>url. Ret (JString ''qrCode pinCode''))\<rparr>"

text \<open>
  dns-sd still running one second after \<^verbatim>\<open>terminate\<close>: the first
  \<^verbatim>\<open>communicate(timeout=1)\<close> raises \<^verbatim>\<open>TimeoutExpired\<close>.
\<close>

definition browse_timeout :: env where
  "browse_timeout =
     healthy_mac\<lparr>spawn :=
       (\<lambda>n cmd. \<lparr>launch = Ret (),
                 communicate = Raise (Exn TimeoutExpired ''Command timed out after 1 seconds'')\<rparr>)\<rparr>"




text \<open>
  A Linux host with the same bridge: there is no dns-sd, and avahi-browse lists the bridge.
\<close>

definition linux_spawn :: "nat \<Rightarrow> string list \<Rightarrow> proc" where
  "linux_spawn n cmd =
     (if cmd = [''avahi-browse'', ''-ptr'', ''_hap._tcp'']
      then \<lparr>launch = Ret (),
            communicate = Ret ''=;eth0;IPv4;SmartThings Bridge 1A2B;_hap._tcp;local;host.local;192.168.1.5;51826;''\<rparr>
      else \<lparr>launch = Raise (Exn FileNotFoundError ''[Errno 2] No such file or directory''),
            communicate = Ret []\<rparr>)"

definition linux_host :: env where
  "linux_host = healthy_mac\<lparr>platform := ''linux'', spawn := linux_spawn\<rparr>"


section \<open>General facts\<close>

text \<open>The URL of the protected endpoint, written out.\<close>

lemma accessories_url_text: "accessories_url = ''http://localhost:51826/accessories''"
  by (simp add: accessories_url_def HAP_PORT_def str_int_def digits.simps)


lemma except_Exception_true:
  "fst (except_Exception report r) = Ret True \<longleftrightarrow> fst r = Ret True"
  by (cases "(report, r)" rule: except_Exception.cases) auto

section \<open>The protocol-challenge probe\<close>

text \<open>
  Claim C3. The protocol-challenge probe passes exactly when the request to the
  protected endpoint is answered with status 401 or 470 (urllib hands a status that is
  not 2xx to the caller as \<open>HTTPError\<close>). A response that \<^verbatim>\<open>urlopen\<close> returns
  (any 2xx) fails and its status is logged; every other HTTP error status fails and is
  logged; a connection fault (\<open>URLError\<close>, or any other exception) fails and its text
  is logged.
\<close>

theorem hap_discovery_verdict:
  "(fst (test_hap_discovery_endpoint env) = Ret True \<longleftrightarrow>
      (\<exists>m. urlopen_status env accessories_url = Raise (Exn (HTTPError 401) m)
         \<or> urlopen_status env accessories_url = Raise (Exn (HTTPError 470) m)))
   \<and> (\<forall>status. urlopen_status env accessories_url = Ret status \<longrightarrow>
         test_hap_discovery_endpoint env =
           (Ret False, [Log ''WARN'' (''Unexpected success on /accessories: '' @ str_int status)]))
   \<and> (\<forall>code m. urlopen_status env accessories_url = Raise (Exn (HTTPError code) m) \<longrightarrow>
         code \<noteq> 401 \<longrightarrow> code \<noteq> 470 \<longrightarrow>
         test_hap_discovery_endpoint env =
           (Ret False, [Log ''ERROR'' (''Unexpected HTTP error: '' @ str_int code)]))
   \<and> (\<forall>m. urlopen_status env accessories_url = Raise (Exn URLError m) \<longrightarrow>
         test_hap_discovery_endpoint env =
           (Ret False, [Log ''ERROR'' (''Cannot connect to HAP server: '' @ m)]))
   \<and> (\<forall>c m. urlopen_status env accessories_url = Raise (Exn c m) \<longrightarrow>
         c \<noteq> KeyboardInterrupt \<longrightarrow> c \<noteq> URLError \<longrightarrow> (\<forall>code. c \<noteq> HTTPError code) \<longrightarrow>
         test_hap_discovery_endpoint env =
           (Ret False, [Log ''ERROR'' (''HAP discovery test failed: '' @ m)]))"
proof (intro conjI allI impI)
  show "fst (test_hap_discovery_endpoint env) = Ret True \<longleftrightarrow>
      (\<exists>m. urlopen_status env accessories_url = Raise (Exn (HTTPError 401) m)
         \<or> urlopen_status env accessories_url = Raise (Exn (HTTPError 470) m))"
    unfolding test_hap_discovery_endpoint_def except_Exception_true
    by (auto split: outcome.splits exn.splits exn_class.splits if_splits)
next
  fix status assume "urlopen_status env accessories_url = Ret status"
  then show "test_hap_discovery_endpoint env =
           (Ret False, [Log ''WARN'' (''Unexpected success on /accessories: '' @ str_int status)])"
    by (simp add: test_hap_discovery_endpoint_def)
next
  fix code m
  assume "urlopen_status env accessories_url = Raise (Exn (HTTPError code) m)"
    "code \<noteq> 401" "code \<noteq> 470"
  then show "test_hap_discovery_endpoint env =
           (Ret False, [Log ''ERROR'' (''Unexpected HTTP error: '' @ str_int code)])"
    by (simp add: test_hap_discovery_endpoint_def)
next
  fix m assume "urlopen_status env accessories_url = Raise (Exn URLError m)"
  then show "test_hap_discovery_endpoint env =
           (Ret False, [Log ''ERROR'' (''Cannot connect to HAP server: '' @ m)])"
    by (simp add: test_hap_discovery_endpoint_def)
next
  fix c m
  assume "urlopen_status env accessories_url = Raise (Exn c m)"
    "c \<noteq> KeyboardInterrupt" "c \<noteq> URLError" "\<forall>code. c \<noteq> HTTPError code"
  then show "test_hap_discovery_endpoint env =
           (Ret False, [Log ''ERROR'' (''HAP discovery test failed: '' @ m)])"
    by (cases c) (simp_all add: test_hap_discovery_endpoint_def)
qed

text \<open>
  The five cases on concrete hosts: status 470, 200, 404, a refused connection and a
  connection reset.
\<close>

theorem hap_discovery_verdict_witness:
  "fst (test_hap_discovery_endpoint healthy_mac) = Ret True
   \<and> test_hap_discovery_endpoint leaking_endpoint =
       (Ret False, [Log ''WARN'' ''Unexpected success on /accessories: 200''])
   \<and> test_hap_discovery_endpoint missing_endpoint =
       (Ret False, [Log ''ERROR'' ''Unexpected HTTP error: 404''])
   \<and> test_hap_discovery_endpoint refused_endpoint =
       (Ret False, [Log ''ERROR'' ''Cannot connect to HAP server: <urlopen error [Errno 111] Connection refused>''])
   \<and> test_hap_discovery_endpoint reset_endpoint =
       (Ret False, [Log ''ERROR'' ''HAP discovery test failed: [Errno 104] Connection reset by peer''])"
  using hap_discovery_verdict [of healthy_mac] hap_discovery_verdict [of leaking_endpoint]
    hap_discovery_verdict [of missing_endpoint] hap_discovery_verdict [of refused_endpoint]
    hap_discovery_verdict [of reset_endpoint]
  by (simp add: healthy_mac_def leaking_endpoint_def missing_endpoint_def refused_endpoint_def
      reset_endpoint_def str_int_def digits.simps)

section \<open>The TCP reachability probe\<close>

text \<open>The exchange after a successful connection passes exactly on a reply that holds the marker.\<close>

lemma tcp_exchange_true:
  "fst (tcp_exchange env) = Ret True \<longleftrightarrow>
     (\<exists>n. sock_send env http_request = Ret n)
     \<and> (\<exists>response. sock_recv env 1024 = Ret response \<and> contains ''HTTP'' response)"
  unfolding tcp_exchange_def
  by (auto split: outcome.splits exn.splits if_splits)

text \<open>
  Claim C6. The TCP reachability probe passes exactly when the socket is created, the
  connection to the HAP port is established (error code 0), the request is sent and
  the reply holds the marker \<^verbatim>\<open>HTTP\<close>. A refused connection fails and the last
  line logged carries the error code. After a connection, a server that sends nothing
  fails with "did not respond" (connection closed) or "connection timed out" (no byte
  within the timeout), and a reply without the marker fails with "response is not HTTP".
\<close>

theorem tcp_probe_verdict:
  "(fst (test_hap_tcp_connection env) = Ret True \<longleftrightarrow>
      socket_new env = Ret ()
      \<and> connect_ex env ''localhost'' HAP_PORT = Ret 0
      \<and> (\<exists>n. sock_send env http_request = Ret n)
      \<and> (\<exists>response. sock_recv env 1024 = Ret response \<and> contains ''HTTP'' response))
   \<and> (\<forall>code. socket_new env = Ret () \<longrightarrow> connect_ex env ''localhost'' HAP_PORT = Ret code \<longrightarrow>
         code \<noteq> 0 \<longrightarrow>
         fst (test_hap_tcp_connection env) = Ret False
         \<and> last (snd (test_hap_tcp_connection env)) =
             Log ''ERROR'' (''Cannot connect to HAP port: error code '' @ str_int code))
   \<and> (\<forall>n. socket_new env = Ret () \<longrightarrow> connect_ex env ''localhost'' HAP_PORT = Ret 0 \<longrightarrow>
         sock_send env http_request = Ret n \<longrightarrow>
         (sock_recv env 1024 = Ret [] \<longrightarrow>
            fst (test_hap_tcp_connection env) = Ret False
            \<and> Log ''ERROR'' ''HAP server did not respond'' \<in> set (snd (test_hap_tcp_connection env)))
         \<and> (\<forall>m. sock_recv env 1024 = Raise (Exn SocketTimeout m) \<longrightarrow>
            fst (test_hap_tcp_connection env) = Ret False
            \<and> Log ''ERROR'' ''HAP server connection timed out'' \<in> set (snd (test_hap_tcp_connection env)))
         \<and> (\<forall>response. sock_recv env 1024 = Ret response \<longrightarrow> response \<noteq> [] \<longrightarrow>
              \<not> contains ''HTTP'' response \<longrightarrow>
            fst (test_hap_tcp_connection env) = Ret False
            \<and> Log ''ERROR'' ''HAP server response is not HTTP'' \<in> set (snd (test_hap_tcp_connection env))))"
proof (intro conjI allI impI)
  show "fst (test_hap_tcp_connection env) = Ret True \<longleftrightarrow>
      socket_new env = Ret ()
      \<and> connect_ex env ''localhost'' HAP_PORT = Ret 0
      \<and> (\<exists>n. sock_send env http_request = Ret n)
      \<and> (\<exists>response. sock_recv env 1024 = Ret response \<and> contains ''HTTP'' response)"
    unfolding test_hap_tcp_connection_def except_Exception_true
    by (auto simp: tcp_exchange_true split: outcome.splits if_splits)
next
  fix code
  assume h: "socket_new env = Ret ()" "connect_ex env ''localhost'' HAP_PORT = Ret code" "code \<noteq> 0"
  from h show "fst (test_hap_tcp_connection env) = Ret False"
    by (simp add: test_hap_tcp_connection_def)
  from h show "last (snd (test_hap_tcp_connection env)) =
             Log ''ERROR'' (''Cannot connect to HAP port: error code '' @ str_int code)"
    by (simp add: test_hap_tcp_connection_def)
next
  fix n
  assume h: "socket_new env = Ret ()" "connect_ex env ''localhost'' HAP_PORT = Ret 0"
    "sock_send env http_request = Ret n" "sock_recv env 1024 = Ret []"
  from h show "fst (test_hap_tcp_connection env) = Ret False"
    by (simp add: test_hap_tcp_connection_def tcp_exchange_def)
  from h show "Log ''ERROR'' ''HAP server did not respond'' \<in> set (snd (test_hap_tcp_connection env))"
    by (simp add: test_hap_tcp_connection_def tcp_exchange_def)
next
  fix n m
  assume h: "socket_new env = Ret ()" "connect_ex env ''localhost'' HAP_PORT = Ret 0"
    "sock_send env http_request = Ret n" "sock_recv env 1024 = Raise (Exn SocketTimeout m)"
  from h show "fst (test_hap_tcp_connection env) = Ret False"
    by (simp add: test_hap_tcp_connection_def tcp_exchange_def)
  from h show "Log ''ERROR'' ''HAP server connection timed out'' \<in> set (snd (test_hap_tcp_connection env))"
    by (simp add: test_hap_tcp_connection_def tcp_exchange_def)
next
  fix n response
  assume h: "socket_new env = Ret ()" "connect_ex env ''localhost'' HAP_PORT = Ret 0"
    "sock_send env http_request = Ret n" "sock_recv env 1024 = Ret response" "response \<noteq> []"
    "\<not> contains ''HTTP'' response"
  from h show "fst (test_hap_tcp_connection env) = Ret False"
    by (simp add: test_hap_tcp_connection_def tcp_exchange_def)
  from h show "Log ''ERROR'' ''HAP server response is not HTTP'' \<in> set (snd (test_hap_tcp_connection env))"
    by (simp add: test_hap_tcp_connection_def tcp_exchange_def)
qed

text \<open>
  The cases on concrete hosts: a healthy bridge, a closed port (error code 111), a
  connection closed without a byte, a silent server, and an SSH server on the port.
\<close>

theorem tcp_probe_verdict_witness:
  "fst (test_hap_tcp_connection healthy_mac) = Ret True
   \<and> fst (test_hap_tcp_connection closed_port) = Ret False
   \<and> last (snd (test_hap_tcp_connection closed_port)) =
       Log ''ERROR'' ''Cannot connect to HAP port: error code 111''
   \<and> fst (test_hap_tcp_connection empty_reply) = Ret False
   \<and> Log ''ERROR'' ''HAP server did not respond'' \<in> set (snd (test_hap_tcp_connection empty_reply))
   \<and> fst (test_hap_tcp_connection silent_server) = Ret False
   \<and> Log ''ERROR'' ''HAP server connection timed out'' \<in> set (snd (test_hap_tcp_connection silent_server))
   \<and> fst (test_hap_tcp_connection ssh_server) = Ret False
   \<and> Log ''ERROR'' ''HAP server response is not HTTP'' \<in> set (snd (test_hap_tcp_connection ssh_server))"
  using tcp_probe_verdict [of healthy_mac] tcp_probe_verdict [of closed_port]
    tcp_probe_verdict [of empty_reply] tcp_probe_verdict [of silent_server]
    tcp_probe_verdict [of ssh_server]
  by (simp add: healthy_mac_def closed_port_def empty_reply_def silent_server_def ssh_server_def
      HAP_PORT_def http_request_def str_int_def digits.simps)

section \<open>The API-shape probe\<close>

text \<open>
  On a payload that is a JSON object the probe passes exactly when the object has the
  key \<^verbatim>\<open>qrCode\<close> and one of \<^verbatim>\<open>pairingCode\<close>, \<^verbatim>\<open>setupCode\<close>,
  \<^verbatim>\<open>pinCode\<close>.
\<close>

lemma expected_fields_object:
  "expected_fields (JObject kvs) =
     Ret (''qrCode'' \<in> fst ` set kvs
          \<and> (''pairingCode'' \<in> fst ` set kvs \<or> ''setupCode'' \<in> fst ` set kvs
              \<or> ''pinCode'' \<in> fst ` set kvs))"
  by (simp add: expected_fields_def)

lemma test_web_api_object:
  "urlopen_json env pairing_url = Ret (JObject kvs) \<Longrightarrow>
   fst (test_web_api env) =
     Ret (''qrCode'' \<in> fst ` set kvs
          \<and> (''pairingCode'' \<in> fst ` set kvs \<or> ''setupCode'' \<in> fst ` set kvs
              \<or> ''pinCode'' \<in> fst ` set kvs))"
  by (simp add: test_web_api_def expected_fields_object)

text \<open>
  Claim C4, at a payload that is no object. The endpoint answers with the JSON string
  \<^verbatim>\<open>"qrCode pinCode"\<close>: it has no key at all, and the probe passes, because
  \<^verbatim>\<open>in\<close> on a string is the substring test.
\<close>

theorem web_api_accepts_string_payload:
  "urlopen_json string_payload pairing_url = Ret (JString ''qrCode pinCode'')
   \<and> fst (test_web_api string_payload) = Ret True"
  by (simp add: test_web_api_def string_payload_def healthy_mac_def expected_fields_def)

section \<open>Faults inside the probes\<close>

text \<open>
  Claim C5, at a browse whose first \<^verbatim>\<open>communicate(timeout=1)\<close> times out. Both
  advertisement probes raise \<^verbatim>\<open>UnboundLocalError\<close> to their caller instead of
  returning: the clause for \<^verbatim>\<open>TimeoutExpired\<close> reads \<^verbatim>\<open>output\<close>, which
  was never assigned. The pairing script then ends with status 1 through the clause for
  unexpected errors.
\<close>

theorem mdns_probes_raise_on_first_timeout:
  "fst (test_mdns_advertisement browse_timeout) = Raise (unbound_local ''output'')
   \<and> fst (test_mdns_with_dns_sd browse_timeout) = Raise (unbound_local ''output'')
   \<and> fst (main_hap_pairing browse_timeout) = Exit 1"
  by (simp add: test_mdns_advertisement_def mdns_try_body_def test_mdns_with_dns_sd_def
      dns_sd_try_body_def run_proc_def browse_timeout_def healthy_mac_def log_def
      main_hap_pairing_def run_all_tests_def run_probe_def test_hap_tcp_connection_def
      tcp_exchange_def test_hap_discovery_endpoint_def test_web_api_def expected_fields_def
      HAP_PORT_def unbound_local_def)

section \<open>Sockets\<close>

text \<open>
  After a successful connection every path of \<^verbatim>\<open>test_hap_tcp_connection\<close> closes
  the socket, through the \<^verbatim>\<open>finally\<close> clause.
\<close>

lemma sockets_open_append:
  "sockets_open n (xs @ ys) = sockets_open (sockets_open n xs) ys"
  by (induction n xs rule: sockets_open.induct) simp_all

lemma tcp_exchange_closes: "sockets_open (Suc n) (snd (tcp_exchange env)) = n"
  unfolding tcp_exchange_def
  by (auto simp: sockets_open_append split: outcome.splits exn.splits)

lemma sockets_open_except_Exception:
  "sockets_open n (snd (except_Exception (\<lambda>m. Log level (text m)) r)) = sockets_open n (snd r)"
  by (cases "(\<lambda>m. Log level (text m), r)" rule: except_Exception.cases)
     (auto simp: sockets_open_append)

lemma tcp_probe_closes_after_connection:
  "socket_new env = Ret () \<Longrightarrow> connect_ex env ''localhost'' HAP_PORT = Ret 0 \<Longrightarrow>
   sockets_open 0 (snd (test_hap_tcp_connection env)) = 0"
  unfolding test_hap_tcp_connection_def sockets_open_except_Exception
  by (simp add: sockets_open_append tcp_exchange_closes)

text \<open>
  Claim C7, at a closed HAP port. \<^verbatim>\<open>test_hap_tcp_connection\<close> returns False and
  leaves its socket open: \<^verbatim>\<open>sock.close()\<close> stands only in the \<^verbatim>\<open>finally\<close>
  of the branch taken after a successful connection. \<^verbatim>\<open>test_port_open\<close> closes
  its socket on the same host.
\<close>

theorem tcp_probe_leaves_socket_open:
  "fst (test_hap_tcp_connection closed_port) = Ret False
   \<and> sockets_open 0 (snd (test_hap_tcp_connection closed_port)) = 1
   \<and> sockets_open 0 (snd (test_port_open closed_port ''localhost'' HAP_PORT 5)) = 0"
  by (simp add: test_hap_tcp_connection_def test_port_open_def settimeout_def closed_port_def
      healthy_mac_def HAP_PORT_def)

section \<open>Platform\<close>

text \<open>
  Claim C8, on a Linux host. The advertisement probe of the pairing script starts dns-sd
  whatever the platform is, and fails there; the main of test-mdns.py chooses
  avahi-browse on the same host and succeeds.
\<close>

theorem pairing_probe_ignores_platform:
  "platform linux_host = ''linux''
   \<and> spawned (snd (test_mdns_advertisement linux_host)) = [[''dns-sd'', ''-B'', ''_hap._tcp'', ''local.'']]
   \<and> fst (test_mdns_advertisement linux_host) = Ret False
   \<and> spawned (snd (main_mdns linux_host)) = [[''avahi-browse'', ''-ptr'', ''_hap._tcp'']]
   \<and> fst (main_mdns linux_host) = Exit 0"
  by (simp add: test_mdns_advertisement_def mdns_try_body_def run_proc_def linux_host_def
      linux_spawn_def healthy_mac_def main_mdns_def test_direct_port_def mdns_strategy_def
      test_mdns_with_avahi_def)


section \<open>The verdict\<close>

text \<open>The dictionary of results after the four assignments, and the verdict on it.\<close>

lemma results_dict:
  "AList.update ''mDNS Advertisement'' mdns
     (AList.update ''Web API'' web
       (AList.update ''HAP Discovery'' hap
         (AList.update ''TCP Connection'' tcp
           [(''TCP Connection'', False), (''HAP Discovery'', False),
            (''Web API'', False), (''mDNS Advertisement'', False)])))
   = [(''TCP Connection'', tcp), (''HAP Discovery'', hap), (''Web API'', web),
      (''mDNS Advertisement'', mdns)]"
  by simp

lemma verdict_fst:
  "fst (verdict [(''TCP Connection'', tcp), (''HAP Discovery'', hap), (''Web API'', web),
                 (''mDNS Advertisement'', mdns)]) = Ret (tcp \<and> mdns)"
  by (simp add: verdict_def dict_get_def)

lemma verdict_last:
  "last (snd (verdict [(''TCP Connection'', tcp), (''HAP Discovery'', hap), (''Web API'', web),
                       (''mDNS Advertisement'', mdns)])) =
     (if tcp \<and> hap \<and> web \<and> mdns
      then Log ''SUCCESS'' (check_mark @ '' All tests passed - HAP server should be pairable'')
      else if tcp \<and> mdns
      then Log ''WARN'' (warning_sign @ ''  Critical tests passed but some issues detected'')
      else Log ''ERROR'' (cross_mark @ '' Critical tests failed - HAP server is NOT pairable''))"
  by (simp add: verdict_def dict_get_def)

lemma verdict_summary:
  "set (map summary_line results) \<subseteq> set (snd (verdict results))"
  by (auto simp: verdict_def split: outcome.splits)

lemma verdict_events_nonempty: "snd (verdict results) \<noteq> []"
  by (simp add: verdict_def split: outcome.splits)

text \<open>When the four probes return, \<^verbatim>\<open>run_all_tests\<close> ends with the verdict on their results.\<close>

lemma run_all_tests_returned:
  assumes "fst (test_hap_tcp_connection env) = Ret tcp"
    and "fst (test_hap_discovery_endpoint env) = Ret hap"
    and "fst (test_web_api env) = Ret web"
    and "fst (test_mdns_advertisement env) = Ret mdns"
  shows "\<exists>pre. run_all_tests env =
           (fst (verdict [(''TCP Connection'', tcp), (''HAP Discovery'', hap), (''Web API'', web),
                          (''mDNS Advertisement'', mdns)]),
            pre @ snd (verdict [(''TCP Connection'', tcp), (''HAP Discovery'', hap),
                                 (''Web API'', web), (''mDNS Advertisement'', mdns)]))"
  using assms unfolding run_all_tests_def run_probe_def results_dict
  by (simp add: case_prod_beta)

lemma run_all_tests_fst:
  assumes "fst (test_hap_tcp_connection env) = Ret tcp"
    and "fst (test_hap_discovery_endpoint env) = Ret hap"
    and "fst (test_web_api env) = Ret web"
    and "fst (test_mdns_advertisement env) = Ret mdns"
  shows "fst (run_all_tests env) = Ret (tcp \<and> mdns)"
  using run_all_tests_returned [OF assms] by (auto simp: verdict_fst)

lemma run_all_tests_last:
  assumes "fst (test_hap_tcp_connection env) = Ret tcp"
    and "fst (test_hap_discovery_endpoint env) = Ret hap"
    and "fst (test_web_api env) = Ret web"
    and "fst (test_mdns_advertisement env) = Ret mdns"
  shows "last (snd (run_all_tests env)) =
           last (snd (verdict [(''TCP Connection'', tcp), (''HAP Discovery'', hap),
                               (''Web API'', web), (''mDNS Advertisement'', mdns)]))"
  using run_all_tests_returned [OF assms] by (auto simp: verdict_events_nonempty)

text \<open>
  Claim C1. Given the results of the four probes, \<^verbatim>\<open>run_all_tests\<close> returns
  True with the closing line "All tests passed" at level SUCCESS when all four passed;
  it returns True with the closing line "Critical tests passed but some issues
  detected" at level WARN when TCP Connection and mDNS Advertisement passed and one of
  the other two failed; and it returns False with the closing line "Critical tests
  failed" at level ERROR whenever TCP Connection or mDNS Advertisement failed, whatever
  the other results are.
\<close>

theorem run_all_tests_verdict:
  assumes "fst (test_hap_tcp_connection env) = Ret tcp"
    and "fst (test_hap_discovery_endpoint env) = Ret hap"
    and "fst (test_web_api env) = Ret web"
    and "fst (test_mdns_advertisement env) = Ret mdns"
  shows "(tcp \<and> hap \<and> web \<and> mdns \<longrightarrow>
            fst (run_all_tests env) = Ret True
            \<and> last (snd (run_all_tests env)) =
                Log ''SUCCESS'' (check_mark @ '' All tests passed - HAP server should be pairable''))
         \<and> (tcp \<and> mdns \<and> \<not> (hap \<and> web) \<longrightarrow>
            fst (run_all_tests env) = Ret True
            \<and> last (snd (run_all_tests env)) =
                Log ''WARN'' (warning_sign @ ''  Critical tests passed but some issues detected''))
         \<and> (\<not> (tcp \<and> mdns) \<longrightarrow>
            fst (run_all_tests env) = Ret False
            \<and> last (snd (run_all_tests env)) =
                Log ''ERROR'' (cross_mark @ '' Critical tests failed - HAP server is NOT pairable''))"
  unfolding run_all_tests_fst [OF assms] run_all_tests_last [OF assms] verdict_last
  by auto

text \<open>
  The three verdicts on concrete hosts: a healthy bridge, the web API down, the HAP
  port closed.
\<close>

theorem run_all_tests_verdict_witness:
  "fst (run_all_tests healthy_mac) = Ret True
   \<and> last (snd (run_all_tests healthy_mac)) =
       Log ''SUCCESS'' (check_mark @ '' All tests passed - HAP server should be pairable'')
   \<and> fst (run_all_tests web_api_down) = Ret True
   \<and> last (snd (run_all_tests web_api_down)) =
       Log ''WARN'' (warning_sign @ ''  Critical tests passed but some issues detected'')
   \<and> fst (run_all_tests closed_port) = Ret False
   \<and> last (snd (run_all_tests closed_port)) =
       Log ''ERROR'' (cross_mark @ '' Critical tests failed - HAP server is NOT pairable'')"
proof -
  have tcp: "fst (test_hap_tcp_connection healthy_mac) = Ret True"
    "fst (test_hap_tcp_connection web_api_down) = Ret True"
    "fst (test_hap_tcp_connection closed_port) = Ret False"
    by (simp_all add: test_hap_tcp_connection_def tcp_exchange_def healthy_mac_def
        web_api_down_def closed_port_def HAP_PORT_def)
  have hap: "fst (test_hap_discovery_endpoint healthy_mac) = Ret True"
    "fst (test_hap_discovery_endpoint web_api_down) = Ret True"
    "fst (test_hap_discovery_endpoint closed_port) = Ret True"
    by (simp_all add: test_hap_discovery_endpoint_def healthy_mac_def
        web_api_down_def closed_port_def)
  have web: "fst (test_web_api healthy_mac) = Ret True"
    "fst (test_web_api web_api_down) = Ret False"
    "fst (test_web_api closed_port) = Ret True"
    by (simp_all add: test_web_api_def expected_fields_def healthy_mac_def
        web_api_down_def closed_port_def)
  have mdns: "fst (test_mdns_advertisement healthy_mac) = Ret True"
    "fst (test_mdns_advertisement web_api_down) = Ret True"
    "fst (test_mdns_advertisement closed_port) = Ret True"
    by (simp_all add: test_mdns_advertisement_def mdns_try_body_def run_proc_def healthy_mac_def
        web_api_down_def closed_port_def mac_spawn_def is_word_char_def)
  show ?thesis
    using run_all_tests_verdict [OF tcp(1) hap(1) web(1) mdns(1)]
      run_all_tests_verdict [OF tcp(2) hap(2) web(2) mdns(2)]
      run_all_tests_verdict [OF tcp(3) hap(3) web(3) mdns(3)]
    by simp
qed

section \<open>The order of the probes\<close>

text \<open>
  No probe calls a probe: \<open>Call\<close> events come from the drivers only. The calls of a run
  of \<^verbatim>\<open>run_all_tests\<close> stop at the first probe that raises.
\<close>

lemma calls_append: "calls (xs @ ys) = calls xs @ calls ys"
  by (induction xs rule: calls.induct) simp_all

lemma spawned_append: "spawned (xs @ ys) = spawned xs @ spawned ys"
  by (induction xs rule: spawned.induct) simp_all

lemma calls_except_Exception:
  "(\<And>m. calls [report m] = []) \<Longrightarrow>
   calls (snd (except_Exception report r)) = calls (snd r)"
  by (cases "(report, r)" rule: except_Exception.cases) (auto simp: calls_append)

lemma spawned_except_Exception:
  "(\<And>m. spawned [report m] = []) \<Longrightarrow>
   spawned (snd (except_Exception report r)) = spawned (snd r)"
  by (cases "(report, r)" rule: except_Exception.cases) (auto simp: spawned_append)
















section \<open>The probes on the concrete hosts\<close>









section \<open>Exit status\<close>




section \<open>The port gate of test-mdns.py\<close>

lemma calls_direct_port: "calls (snd (test_direct_port env)) = []"
  unfolding test_direct_port_def
  by (subst calls_except_Exception) (auto split: outcome.splits)

lemma spawned_direct_port: "spawned (snd (test_direct_port env)) = []"
  unfolding test_direct_port_def
  by (subst spawned_except_Exception) (auto split: outcome.splits)

lemma direct_port_true:
  "fst (test_direct_port env) = Ret True \<longleftrightarrow>
     socket_new env = Ret () \<and> connect_ex env ''localhost'' 51826 = Ret 0"
  unfolding test_direct_port_def except_Exception_true
  by (auto split: outcome.splits)

text \<open>
  Claim C10. In test-mdns.py, unless the port check returns True no discovery strategy
  is called and no subprocess is started, and the exit status is not 0; when the port
  check returns False the script exits with status 1. A strategy is called only after
  the port check has passed. Exit status 0 implies that the connection to
  localhost:51826 succeeded and that the strategy chosen for the platform returned
  True.
\<close>

theorem main_mdns_port_gate:
  "(fst (test_direct_port env) \<noteq> Ret True \<longrightarrow>
      calls (snd (main_mdns env)) = [] \<and> spawned (snd (main_mdns env)) = []
      \<and> fst (main_mdns env) \<noteq> Exit 0)
   \<and> (fst (test_direct_port env) = Ret False \<longrightarrow> fst (main_mdns env) = Exit 1)
   \<and> (calls (snd (main_mdns env)) \<noteq> [] \<or> spawned (snd (main_mdns env)) \<noteq> [] \<longrightarrow>
        fst (test_direct_port env) = Ret True)
   \<and> (fst (main_mdns env) = Exit 0 \<longrightarrow>
        connect_ex env ''localhost'' 51826 = Ret 0
        \<and> fst (test_direct_port env) = Ret True
        \<and> (if platform env = ''darwin'' then fst (test_mdns_with_dns_sd env)
            else fst (test_mdns_with_avahi env)) = Ret True)"
proof -
  have closed: "fst (test_direct_port env) \<noteq> Ret True \<Longrightarrow>
      calls (snd (main_mdns env)) = [] \<and> spawned (snd (main_mdns env)) = []
      \<and> fst (main_mdns env) \<noteq> Exit 0"
    unfolding main_mdns_def
    by (cases "test_direct_port env")
       (use calls_direct_port [of env] spawned_direct_port [of env] in
        \<open>auto simp: calls_append spawned_append split: outcome.splits\<close>)
  have failed: "fst (test_direct_port env) = Ret False \<Longrightarrow> fst (main_mdns env) = Exit 1"
    unfolding main_mdns_def by (simp add: case_prod_beta)
  have exit0: "fst (main_mdns env) = Exit 0 \<Longrightarrow>
      (if platform env = ''darwin'' then fst (test_mdns_with_dns_sd env)
       else fst (test_mdns_with_avahi env)) = Ret True"
    unfolding main_mdns_def mdns_strategy_def
    by (auto simp: case_prod_beta split: outcome.splits if_splits)
  from closed failed exit0 show ?thesis
    by (auto simp: direct_port_true)
qed

text \<open>A host with the port closed, and a Linux host on which the bridge is advertised.\<close>

theorem main_mdns_port_gate_witness:
  "fst (main_mdns closed_port) = Exit 1
   \<and> calls (snd (main_mdns closed_port)) = []
   \<and> spawned (snd (main_mdns closed_port)) = []
   \<and> fst (main_mdns linux_host) = Exit 0
   \<and> connect_ex linux_host ''localhost'' 51826 = Ret 0
   \<and> fst (test_direct_port linux_host) = Ret True
   \<and> fst (test_mdns_with_avahi linux_host) = Ret True"
proof -
  have port: "fst (test_direct_port closed_port) = Ret False"
    by (simp add: test_direct_port_def closed_port_def healthy_mac_def)
  have exit0: "fst (main_mdns linux_host) = Exit 0"
    by (simp add: main_mdns_def test_direct_port_def mdns_strategy_def test_mdns_with_avahi_def
        run_proc_def linux_host_def linux_spawn_def healthy_mac_def)
  have linux: "platform linux_host = ''linux''"
    by (simp add: linux_host_def)
  show ?thesis
    using main_mdns_port_gate [of closed_port] main_mdns_port_gate [of linux_host]
    by (simp add: port exit0 linux)
qed

end
